theory Spec2Isabelle
  imports Main "HOL-Library.Multiset"
begin

section \<open>Data model (types.ts)\<close>

text \<open>
  The interfaces of the application, field by field. \<open>SavedProject.id\<close> is written
  \<open>id_sp\<close> because \<open>id\<close> is the identity function of HOL. A timestamp is the integer
  number of milliseconds that \<open>Date.now()\<close> returns.
\<close>

record FileNode =
  path :: string
  content :: string

record GeneratedProject =
  name :: string
  description :: string
  files :: "FileNode list"

record SavedProject =
  id_sp :: string
  timestamp :: int
  prompt :: string
  project :: GeneratedProject

section \<open>History reconciliation (the state updater of syncHistory)\<close>

text \<open>
  \<^verbatim>\<open>prev.forEach(p => { if (!combined.find(c => c.id === p.id)) combined.push(p); })\<close>
  The test reads \<open>combined\<close> as it is when \<open>p\<close> is visited, so it also sees the local
  records pushed before \<open>p\<close>.
\<close>

fun forEach_push :: "SavedProject list \<Rightarrow> SavedProject list \<Rightarrow> SavedProject list" where
  "forEach_push combined [] = combined"
| "forEach_push combined (p # prev) =
     forEach_push
       (if List.find (\<lambda>c. id_sp c = id_sp p) combined = None then combined @ [p] else combined)
       prev"

text \<open>
  \<^verbatim>\<open>combined.sort((a, b) => b.timestamp - a.timestamp)\<close>
  \<open>Array.prototype.sort\<close> is stable, and the comparator orders by descending timestamp:
  the result is the stable sort on the key \<open>- timestamp\<close>.
\<close>

definition sort_desc :: "SavedProject list \<Rightarrow> SavedProject list" where
  "sort_desc combined = sort_key (\<lambda>r. - timestamp r) combined"

text \<open>
  \<^verbatim>\<open>const combined = [...cloudHistory]; prev.forEach(...); combined.sort(...); return combined;\<close>
  \<open>prev\<close> is the local list, \<open>cloudHistory\<close> the remote one.
\<close>

definition mergeHistory :: "SavedProject list \<Rightarrow> SavedProject list \<Rightarrow> SavedProject list" where
  "mergeHistory prev cloudHistory = sort_desc (forEach_push cloudHistory prev)"

section \<open>Application state (the hooks of App.tsx)\<close>

datatype Step = CONFIG | PROMPT | GENERATING | REVIEW | DEPLOYING | SUCCESS

datatype LogType = LInfo | LSuccess | LError | LWarning

text \<open>A log entry; its random id and its clock reading are not modelled.\<close>

record LogEntry =
  message :: string
  ltype :: LogType

text \<open>
  \<open>vercelToken\<close> and \<open>useBetaDeploy\<close> are optional fields; the code only tests them
  for truthiness.
\<close>

record AppConfig =
  githubToken :: string
  vercelToken :: "string option"
  githubUsername :: string
  useBetaDeploy :: "bool option"

record DeploymentResult =
  repoUrl :: string
  deployUrl :: "string option"
  isBeta :: bool

datatype Mode = ModeGenerate | ModePaste

text \<open>
  The state variables of the component, under their own names (\<open>prompt\<close> and \<open>project\<close>
  carry the suffix \<open>_st\<close>, the names being fields of \<open>SavedProject\<close>), and the part of
  the browser that the handlers write: the entry \<open>autodeploy_history\<close> of localStorage
  and the calls of \<open>saveHistoryToGist\<close>, in order.
\<close>

record App =
  step :: Step
  config :: AppConfig
  logs :: "LogEntry list"
  prompt_st :: string
  project_st :: "GeneratedProject option"
  deploymentResult :: "DeploymentResult option"
  mode :: Mode
  savedProjects :: "SavedProject list"
  showHistory :: bool
  showAbout :: bool
  isSyncing :: bool
  stored_history :: "SavedProject list option"
  stored_config :: "AppConfig option"
  gist_saves :: "(string \<times> SavedProject list) list"

text \<open>The state of the component when it is mounted (the arguments of \<open>useState\<close>).\<close>

definition app0 :: App where
  "app0 = \<lparr>step = CONFIG,
           config = \<lparr>githubToken = [], vercelToken = Some [], githubUsername = [],
                     useBetaDeploy = Some False\<rparr>,
           logs = [], prompt_st = [], project_st = None, deploymentResult = None,
           mode = ModeGenerate, savedProjects = [], showHistory = False, showAbout = False,
           isSyncing = False, stored_history = None, stored_config = None, gist_saves = []\<rparr>"

section \<open>Values a remote call can produce\<close>

text \<open>
  What a \<open>catch\<close> clause can receive: an \<open>Error\<close> with its message, or a value that
  is no \<open>Error\<close> and has no \<open>message\<close> property.
\<close>

datatype thrown = JsError string | NonError

text \<open>
  \<open>await fetch(...)\<close> either rejects, or resolves to a response whose \<open>ok\<close> flag is
  false or true; \<open>await response.json()\<close> either rejects or yields the parsed body.
\<close>

datatype 'a body = BadJson thrown | Json 'a

datatype ('e, 'a) fetched = Rejected thrown | NotOk "'e body" | Ok "'a body"

text \<open>The fields that the code reads in the bodies of the hosts' answers.\<close>

record repo_data =
  html_url :: string

record gh_error =
  gh_message :: "string option"

record contents_data =
  sha :: "string option"

record vercel_error =
  code :: "string option"
  v_message :: "string option"

record vercel_project =
  vp_name :: string
  vp_html_url :: string

text \<open>The requests that reach the source-control host and the hosting provider.\<close>

datatype request =
    CreateRepo string string string
  | GetContents string string string string
  | PutContents string string string string string "string option"
  | CreateVercel string string string

text \<open>
  The answers of the hosts to one run of the pipeline. The uploads are issued one after
  the other, so the answers to the probe and to the upload of the file at position \<open>i\<close>
  are indexed by \<open>i\<close>. The body of a successful hosting answer is \<open>None\<close> when it is a
  falsy JSON value.
\<close>

record deploy_env =
  repo_response :: "(gh_error, repo_data) fetched"
  probe_response :: "nat \<Rightarrow> (unit, contents_data) fetched"
  put_response :: "nat \<Rightarrow> (unit, unit) fetched"
  vercel_response :: "(vercel_error, vercel_project option) fetched"

section \<open>Text helpers\<close>

text \<open>Number to decimal text, as a template literal prints a non-negative integer.\<close>

fun decimal :: "nat \<Rightarrow> string" where
  "decimal n =
     (if n < 10 then [''0123456789'' ! n]
      else decimal (n div 10) @ [''0123456789'' ! (n mod 10)])"

declare decimal.simps [simp del]

text \<open>A template literal prints a missing property as \<open>undefined\<close>.\<close>

definition interpolate :: "string option \<Rightarrow> string" where
  "interpolate v = (case v of None \<Rightarrow> ''undefined'' | Some s \<Rightarrow> s)"

definition thrown_message :: "thrown \<Rightarrow> string option" where
  "thrown_message e = (case e of JsError m \<Rightarrow> Some m | NonError \<Rightarrow> None)"

text \<open>
  \<open>String.prototype.trim\<close>. A \<open>char\<close> stands for a code point below 256; the white
  space there is tab to carriage return, the space and the no-break space.
\<close>

definition is_space :: "char \<Rightarrow> bool" where
  "is_space c =
     (c \<in> set [CHR 0x09, CHR 0x0A, CHR 0x0B, CHR 0x0C, CHR 0x0D, CHR 0x20, CHR 0xA0])"

definition trim :: "string \<Rightarrow> string" where
  "trim s = rev (dropWhile is_space (rev (dropWhile is_space s)))"

text \<open>Whether a text occurs inside another one (used to say that a message names a path).\<close>

fun contains :: "string \<Rightarrow> string \<Rightarrow> bool" where
  "contains p [] = (p = [])"
| "contains p (c # cs) = (take (length p) (c # cs) = p \<or> contains p cs)"

section \<open>githubService.ts: createRepository and pushFilesToRepo\<close>

text \<open>
  \<^verbatim>\<open>if (!response.ok) { const err = await response.json();
       throw new Error(`GitHub Create Repo Error: ${err.message}`); }
  return await response.json();\<close>
\<close>

definition createRepository ::
    "string \<Rightarrow> string \<Rightarrow> string \<Rightarrow> (gh_error, repo_data) fetched \<Rightarrow> thrown + repo_data" where
  "createRepository token repoName descr response =
     (case response of
        Rejected e \<Rightarrow> Inl e
      | NotOk b \<Rightarrow>
          (case b of
             BadJson e \<Rightarrow> Inl e
           | Json err \<Rightarrow>
               Inl (JsError (''GitHub Create Repo Error: '' @ interpolate (gh_message err))))
      | Ok b \<Rightarrow> (case b of BadJson e \<Rightarrow> Inl e | Json d \<Rightarrow> Inr d))"

text \<open>
  The loop over the files. For the file at position \<open>i\<close>: the progress message, the probe
  (any failure of it leaves \<open>sha\<close> undefined), the upload; a rejected upload propagates
  its own error, an upload answered without \<open>ok\<close> throws \<open>Failed to upload <path>\<close>, and
  in both cases the loop is left. The result lists the progress messages, the requests
  issued, in order, and how the call ended.
\<close>

fun pushFilesToRepo ::
    "string \<Rightarrow> string \<Rightarrow> string \<Rightarrow> FileNode list \<Rightarrow> deploy_env \<Rightarrow> nat \<Rightarrow>
     string list \<times> request list \<times> (thrown + unit)" where
  "pushFilesToRepo token username repoName [] env i = ([], [], Inr ())"
| "pushFilesToRepo token username repoName (file # rest) env i =
     (let msg = ''Pushing '' @ path file @ ''...'';
          sha_found = (case probe_response env i of
                         Ok (Json checkData) \<Rightarrow> sha checkData
                       | _ \<Rightarrow> None);
          reqs = [GetContents token username repoName (path file),
                  PutContents token username repoName (path file) (content file) sha_found]
      in case put_response env i of
           Rejected e \<Rightarrow> ([msg], reqs, Inl e)
         | NotOk _ \<Rightarrow> ([msg], reqs, Inl (JsError (''Failed to upload '' @ path file)))
         | Ok _ \<Rightarrow>
             (case pushFilesToRepo token username repoName rest env (Suc i) of
                (msgs, reqs', r) \<Rightarrow> (msg # msgs, reqs @ reqs', r)))"

section \<open>vercelService.ts: createVercelProject\<close>

text \<open>
  \<^verbatim>\<open>if (!response.ok) { const err = await response.json();
       if (err.code === 'PROJECT_ALREADY_EXISTS')
         return { name: projectName,
                  html_url: `https://vercel.com/${repoName.split('/')[0]}/${projectName}` };
       throw new Error(err.message || "Failed to create Vercel project"); }
  return await response.json();\<close>
\<close>

definition createVercelProject ::
    "string \<Rightarrow> string \<Rightarrow> string \<Rightarrow> (vercel_error, vercel_project option) fetched \<Rightarrow>
     thrown + vercel_project option" where
  "createVercelProject vercelTok projectName repoName response =
     (case response of
        Rejected e \<Rightarrow> Inl e
      | NotOk b \<Rightarrow>
          (case b of
             BadJson e \<Rightarrow> Inl e
           | Json err \<Rightarrow>
               if code err = Some ''PROJECT_ALREADY_EXISTS''
               then Inr (Some \<lparr>vp_name = projectName,
                       vp_html_url = ''https://vercel.com/''
                         @ takeWhile (\<lambda>c. c \<noteq> CHR ''/'') repoName @ ''/'' @ projectName\<rparr>)
               else Inl (JsError
                      (case v_message err of
                         None \<Rightarrow> ''Failed to create Vercel project''
                       | Some m \<Rightarrow> if m = [] then ''Failed to create Vercel project'' else m)))
      | Ok b \<Rightarrow> (case b of BadJson e \<Rightarrow> Inl e | Json v \<Rightarrow> Inr v))"

section \<open>App.tsx: logging and history persistence\<close>

definition addLog :: "string \<Rightarrow> LogType \<Rightarrow> App \<Rightarrow> App" where
  "addLog msg t st = st\<lparr>logs := logs st @ [\<lparr>message = msg, ltype = t\<rparr>]\<rparr>"

text \<open>
  \<^verbatim>\<open>addLog(error instanceof Error ? error.message
                                 : "An unexpected error occurred in my systems.", 'error')\<close>
\<close>

definition handleError :: "thrown \<Rightarrow> App \<Rightarrow> App" where
  "handleError err st =
     addLog (case err of
               JsError m \<Rightarrow> m
             | NonError \<Rightarrow> ''An unexpected error occurred in my systems.'') LError st"

text \<open>
  \<open>saveHistory\<close> reads \<open>config\<close> from the render its caller closed over, passed here as
  \<open>cfg\<close>. \<open>saveHistoryToGist\<close> swallows its own failures; the call is recorded.
\<close>

definition saveHistory :: "AppConfig \<Rightarrow> SavedProject list \<Rightarrow> App \<Rightarrow> App" where
  "saveHistory cfg newHistory st =
     st\<lparr>savedProjects := newHistory,
        stored_history := Some newHistory,
        gist_saves := (if githubToken cfg \<noteq> [] then gist_saves st @ [(githubToken cfg, newHistory)]
                       else gist_saves st)\<rparr>"

text \<open>
  \<open>saveCurrentProject\<close>. \<open>rnd\<close> is the text of \<open>Math.random().toString(36)\<close> and \<open>now\<close>
  the value of \<open>Date.now()\<close> in this call.
\<close>

definition saveCurrentProject :: "string \<Rightarrow> int \<Rightarrow> App \<Rightarrow> App" where
  "saveCurrentProject rnd now st =
     (case project_st st of
        None \<Rightarrow> st
      | Some p \<Rightarrow>
          (let newEntry = \<lparr>id_sp = drop 7 rnd, timestamp = now,
                           prompt = prompt_st st, project = p\<rparr>;
               isDuplicate = list_ex (\<lambda>s. name (project s) = name p \<and> prompt s = prompt_st st)
                               (savedProjects st)
           in if \<not> isDuplicate
              then addLog (''Project '' @ [CHR 0x22] @ name p @ [CHR 0x22] @ '' saved to history.'')
                     LSuccess (saveHistory (config st) (newEntry # savedProjects st) st)
              else addLog (''Project '' @ [CHR 0x22] @ name p @ [CHR 0x22] @ '' is already saved.'')
                     LWarning st))"

definition loadProject :: "SavedProject \<Rightarrow> App \<Rightarrow> App" where
  "loadProject entry st =
     addLog (''Loaded project '' @ [CHR 0x22] @ name (project entry) @ [CHR 0x22]
               @ '' from history.'') LInfo
       (st\<lparr>prompt_st := prompt entry, project_st := Some (project entry),
           step := REVIEW, showHistory := False\<rparr>)"

definition deleteProject :: "string \<Rightarrow> App \<Rightarrow> App" where
  "deleteProject i st = saveHistory (config st) (filter (\<lambda>p. id_sp p \<noteq> i) (savedProjects st)) st"

section \<open>App.tsx: handleDeploy\<close>

text \<open>
  An async handler runs up to its first \<open>await\<close> when it is called and continues when
  the awaited call settles. \<open>handleDeploy_begin\<close> is the part before
  \<open>await createRepository(...)\<close>: the guard, the phase, two log lines and the repository
  name; \<open>rnd\<close> is the value of \<open>Math.floor(Math.random() * 1000)\<close>. What the continuation
  reads from the render it closed over is kept in a \<open>deploy_run\<close>.
\<close>

record deploy_run =
  run_project :: GeneratedProject
  run_config :: AppConfig
  run_repoName :: string

definition handleDeploy_begin :: "nat \<Rightarrow> App \<Rightarrow> (App \<times> deploy_run) option" where
  "handleDeploy_begin rnd st =
     (case project_st st of
        None \<Rightarrow> None
      | Some p \<Rightarrow>
          if githubUsername (config st) = [] then None
          else
            (let repoName = name p @ ''-'' @ decimal rnd;
                 st1 = addLog ''Initiating deployment sequence...'' LWarning (st\<lparr>step := DEPLOYING\<rparr>);
                 st2 = addLog (''1. Creating repository '' @ [CHR 0x27] @ repoName @ [CHR 0x27]
                                 @ '' on GitHub...'') LInfo st1
             in Some (st2, \<lparr>run_project = p, run_config = config st, run_repoName = repoName\<rparr>)))"

text \<open>
  Step 3 of the run, entered after the uploads: returns the state with its log lines,
  the requests issued, \<open>vUrl\<close> and \<open>isBetaSuccess\<close>.
\<close>

definition provision_hosting ::
    "deploy_run \<Rightarrow> deploy_env \<Rightarrow> App \<Rightarrow> App \<times> request list \<times> string option \<times> bool" where
  "provision_hosting run env st =
     (let cfg = run_config run; repoName = run_repoName run in
      case vercelToken cfg of
        Some vt \<Rightarrow>
          if useBetaDeploy cfg = Some True \<and> vt \<noteq> []
          then
            (let st1 = addLog ''3. [Beta] Creating Vercel Project automatically...'' LInfo st;
                 repoIdent = githubUsername cfg @ ''/'' @ repoName;
                 req = CreateVercel vt repoName repoIdent
             in case createVercelProject vt repoName repoIdent (vercel_response env) of
                  Inr (Some vProject) \<Rightarrow>
                    (addLog ''[Beta] Project created! Build triggered on Vercel.'' LSuccess st1,
                     [req],
                     Some (''https://vercel.com/'' @ githubUsername cfg @ ''/'' @ vp_name vProject),
                     True)
                | Inr None \<Rightarrow> (st1, [req], None, False)
                | Inl e \<Rightarrow>
                    (addLog (''[Beta] Auto-deploy failed ('' @ interpolate (thrown_message e)
                               @ ''). Falling back to manual mode.'') LWarning st1,
                     [req], None, False))
          else (addLog ''3. Skipping auto-deploy (Beta disabled or no token).'' LInfo st,
                [], None, False)
      | None \<Rightarrow> (addLog ''3. Skipping auto-deploy (Beta disabled or no token).'' LInfo st,
                 [], None, False))"

text \<open>
  The continuation of \<open>handleDeploy\<close>, from the answer to the repository creation to the
  end: the resulting state and the requests of the whole run, in order.
\<close>

definition handleDeploy_resume :: "deploy_run \<Rightarrow> deploy_env \<Rightarrow> App \<Rightarrow> App \<times> request list" where
  "handleDeploy_resume run env st =
     (let cfg = run_config run; p = run_project run; repoName = run_repoName run;
          create = CreateRepo (githubToken cfg) repoName (description p)
      in case createRepository (githubToken cfg) repoName (description p) (repo_response env) of
           Inl err \<Rightarrow> ((handleError err st)\<lparr>step := REVIEW\<rparr>, [create])
         | Inr repoData \<Rightarrow>
             (let st1 = addLog ''GitHub Repository created successfully.'' LSuccess st;
                  st2 = addLog ''2. Uploading source code...'' LInfo st1
              in case pushFilesToRepo (githubToken cfg) (githubUsername cfg) repoName
                        (files p) env 0 of
                   (msgs, reqs, r) \<Rightarrow>
                     (let st3 = foldl (\<lambda>s m. addLog m LInfo s) st2 msgs in
                      case r of
                        Inl err \<Rightarrow> ((handleError err st3)\<lparr>step := REVIEW\<rparr>, create # reqs)
                      | Inr _ \<Rightarrow>
                          (let st4 = addLog ''Source code uploaded.'' LSuccess st3 in
                           case provision_hosting run env st4 of
                             (st5, vreqs, vUrl, isBetaSuccess) \<Rightarrow>
                               (st5\<lparr>deploymentResult :=
                                      Some \<lparr>repoUrl = html_url repoData,
                                            deployUrl = (case vUrl of
                                                           None \<Rightarrow> None
                                                         | Some u \<Rightarrow> if u = [] then None else Some u),
                                            isBeta = isBetaSuccess\<rparr>,
                                    step := SUCCESS\<rparr>,
                                create # reqs @ vreqs)))))"

text \<open>One run of \<open>handleDeploy\<close> with nothing else happening while it is suspended.\<close>

definition handleDeploy :: "nat \<Rightarrow> deploy_env \<Rightarrow> App \<Rightarrow> App \<times> request list" where
  "handleDeploy rnd env st =
     (case handleDeploy_begin rnd st of
        None \<Rightarrow> (st, [])
      | Some (st1, run) \<Rightarrow> handleDeploy_resume run env st1)"

section \<open>geminiService.ts: generateProjectCode\<close>

text \<open>
  What \<open>ai.models.generateContent\<close> does: it rejects, or it answers without text, with a
  text that \<open>JSON.parse\<close> refuses, or with the text of a project.
\<close>

datatype ai_response = AiRejected thrown | AiNoText | AiUnparsable | AiProject GeneratedProject

definition generateProjectCode :: "string option \<Rightarrow> ai_response \<Rightarrow> thrown + GeneratedProject" where
  "generateProjectCode apiKey response =
     (if apiKey = None \<or> apiKey = Some []
      then Inl (JsError ''Gemini API Key is missing from environment variables.'')
      else case response of
             AiProject g \<Rightarrow> Inr g
           | _ \<Rightarrow> Inl (JsError ''I failed to process the code. Please try again.''))"

section \<open>App.tsx: handleGenerate\<close>

definition handleGenerate_begin :: "App \<Rightarrow> App option" where
  "handleGenerate_begin st =
     (if trim (prompt_st st) = [] then None
      else Some
        (addLog (if mode st = ModeGenerate
                 then ''I'm brainstorming code for: '' @ [CHR 0x22] @ take 30 (prompt_st st)
                        @ ''...'' @ [CHR 0x22]
                 else ''Analyzing code structure...'') LInfo
           (st\<lparr>step := GENERATING\<rparr>)))"

text \<open>
  The continuation after \<open>await generateProjectCode(prompt, mode)\<close>. \<open>cap\<close> is the render
  the handler closed over: \<open>prompt\<close>, \<open>savedProjects\<close> and \<open>config\<close> are read from it.
  \<open>rnd\<close> is the text of \<open>Math.random().toString(36)\<close>, \<open>now\<close> the value of \<open>Date.now()\<close>.
\<close>

definition handleGenerate_resume ::
    "App \<Rightarrow> thrown + GeneratedProject \<Rightarrow> string \<Rightarrow> int \<Rightarrow> App \<Rightarrow> App" where
  "handleGenerate_resume cap outcome rnd now st =
     (case outcome of
        Inr generated \<Rightarrow>
          (let st1 = st\<lparr>project_st := Some generated\<rparr>;
               st2 = addLog (''Prepared '' @ [CHR 0x22] @ name generated @ [CHR 0x22] @ '' with ''
                               @ decimal (length (files generated)) @ '' files.'') LSuccess st1;
               st3 = st2\<lparr>step := REVIEW\<rparr>;
               newEntry = \<lparr>id_sp = drop 7 rnd, timestamp = now,
                           prompt = prompt_st cap, project = generated\<rparr>
           in saveHistory (config cap) (newEntry # savedProjects cap) st3)
      | Inl err \<Rightarrow> (handleError err st)\<lparr>step := PROMPT\<rparr>)"

text \<open>One run of \<open>handleGenerate\<close> with nothing else happening while it is suspended.\<close>

definition handleGenerate :: "thrown + GeneratedProject \<Rightarrow> string \<Rightarrow> int \<Rightarrow> App \<Rightarrow> App" where
  "handleGenerate outcome rnd now st =
     (case handleGenerate_begin st of
        None \<Rightarrow> st
      | Some st1 \<Rightarrow> handleGenerate_resume st outcome rnd now st1)"

section \<open>githubService.ts: loadHistoryFromGist\<close>



text \<open>The stored document; \<open>history\<close> is \<open>None\<close> when the property is missing or null.\<close>

record history_doc =
  history :: "SavedProject list option"





section \<open>App.tsx: syncHistory\<close>

text \<open>The part before \<open>await loadHistoryFromGist(token)\<close>; \<open>None\<close> is the early return.\<close>

definition syncHistory_begin :: "string \<Rightarrow> bool \<Rightarrow> App \<Rightarrow> App option" where
  "syncHistory_begin token silent st =
     (if token = [] then None
      else Some (if silent then st
                 else addLog ''Syncing projects with GitHub Cloud...'' LInfo
                        (st\<lparr>isSyncing := True\<rparr>)))"

text \<open>
  The continuation. The updater passed to \<open>setSavedProjects\<close> receives the list current
  at that moment. \<open>loadHistoryFromGist\<close> never throws, so the \<open>catch\<close> clause is never
  entered; \<open>finally\<close> clears the flag.
\<close>

definition syncHistory_resume :: "bool \<Rightarrow> SavedProject list option \<Rightarrow> App \<Rightarrow> App" where
  "syncHistory_resume silent cloudHistory st =
     (let st1 =
        (case cloudHistory of
           Some cloud \<Rightarrow>
             (let combined = mergeHistory (savedProjects st) cloud;
                  st' = st\<lparr>savedProjects := combined, stored_history := Some combined\<rparr>
              in if silent then st' else addLog ''History synced successfully.'' LSuccess st')
         | None \<Rightarrow>
             if silent then st
             else addLog ''No cloud history found. Creating new sync file...'' LInfo st)
      in if silent then st1 else st1\<lparr>isSyncing := False\<rparr>)"


section \<open>githubService.ts: verifyGithubToken, and App.tsx: handleLogin\<close>

text \<open>
  \<^verbatim>\<open>if (!response.ok) throw new Error("Invalid GitHub Token");
  const data = await response.json(); return data.login;\<close>
  The body of the answer is its \<open>login\<close>.
\<close>

definition verifyGithubToken :: "string \<Rightarrow> (unit, string) fetched \<Rightarrow> thrown + string" where
  "verifyGithubToken token response =
     (case response of
        Rejected e \<Rightarrow> Inl e
      | NotOk b \<Rightarrow> Inl (JsError ''Invalid GitHub Token'')
      | Ok b \<Rightarrow> (case b of BadJson e \<Rightarrow> Inl e | Json login \<Rightarrow> Inr login))"

definition handleLogin_begin :: "App \<Rightarrow> App option" where
  "handleLogin_begin st =
     (if githubToken (config st) = [] then None
      else Some (addLog ''Verifying GitHub credentials...'' LInfo st))"

text \<open>
  The continuation after \<open>await verifyGithubToken(config.githubToken)\<close>. It ends with the
  call \<open>syncHistory(config.githubToken)\<close>, which runs up to its own \<open>await\<close>; the flag
  tells whether that call is now suspended.
\<close>

definition handleLogin_resume :: "App \<Rightarrow> thrown + string \<Rightarrow> App \<Rightarrow> App \<times> bool" where
  "handleLogin_resume cap outcome st =
     (case outcome of
        Inr username \<Rightarrow>
          (let newConfig = (config cap)\<lparr>githubUsername := username\<rparr>;
               st1 = st\<lparr>config := newConfig, stored_config := Some newConfig\<rparr>;
               st2 = addLog (''Hello, '' @ username @ ''! Login successful.'') LSuccess st1;
               st3 = st2\<lparr>step := PROMPT\<rparr>
           in case syncHistory_begin (githubToken (config cap)) False st3 of
                None \<Rightarrow> (st3, False)
              | Some st4 \<Rightarrow> (st4, True))
      | Inl err \<Rightarrow> (handleError err st, False))"

section \<open>App.tsx: the component as a machine driven by events\<close>

text \<open>
  The state of the component together with the handler calls that are suspended at an
  \<open>await\<close>: for \<open>handleLogin\<close> and \<open>handleGenerate\<close> the render each call closed over, for
  \<open>handleDeploy\<close> its \<open>deploy_run\<close>, for \<open>syncHistory\<close> its \<open>silent\<close> flag.
\<close>

record Machine =
  app :: App
  logins :: "App list"
  generations :: "App list"
  deployments :: "deploy_run list"
  syncs :: "bool list"

text \<open>
  What the JSX renders and enables. The panels of the left pane are rendered when About
  is closed; the history overlay (\<open>absolute inset-0 z-50\<close>) lies over the whole page
  while it is shown.
\<close>

definition main_pane :: "App \<Rightarrow> bool" where
  "main_pane st = (\<not> showAbout st \<and> \<not> showHistory st)"

text \<open>\<^verbatim>\<open>{step === Step.CONFIG && (<form onSubmit={handleLogin} ...>)}\<close>\<close>

definition login_form :: "App \<Rightarrow> bool" where
  "login_form st = (main_pane st \<and> step st = CONFIG)"

text \<open>\<^verbatim>\<open>{(step === Step.PROMPT || step === Step.GENERATING) && (...)}\<close>\<close>

definition prompt_panel :: "App \<Rightarrow> bool" where
  "prompt_panel st = (main_pane st \<and> (step st = PROMPT \<or> step st = GENERATING))"

text \<open>
  \<^verbatim>\<open><button onClick={handleGenerate}
          disabled={step === Step.GENERATING || !prompt.trim()} ...>\<close>
\<close>

definition generate_enabled :: "App \<Rightarrow> bool" where
  "generate_enabled st =
     (prompt_panel st \<and> \<not> (step st = GENERATING \<or> trim (prompt_st st) = []))"

text \<open>\<^verbatim>\<open>{(step === Step.REVIEW || step === Step.DEPLOYING) && project && (...)}\<close>\<close>

definition review_panel :: "App \<Rightarrow> bool" where
  "review_panel st =
     (main_pane st \<and> (step st = REVIEW \<or> step st = DEPLOYING) \<and> project_st st \<noteq> None)"

text \<open>\<^verbatim>\<open><button onClick={handleDeploy} disabled={step === Step.DEPLOYING} ...>\<close>\<close>

definition deploy_enabled :: "App \<Rightarrow> bool" where
  "deploy_enabled st = (review_panel st \<and> \<not> step st = DEPLOYING)"

text \<open>\<^verbatim>\<open>{step === Step.SUCCESS && deploymentResult && (...)}\<close>\<close>

definition success_panel :: "App \<Rightarrow> bool" where
  "success_panel st = (main_pane st \<and> step st = SUCCESS \<and> deploymentResult st \<noteq> None)"

text \<open>
  The events: what the user does with the controls of the page, and the settling of a
  suspended call, chosen by its position among the suspended calls of its kind and
  carrying what the awaited call produced.
\<close>

datatype event =
    TypeGithubToken string
  | TypeVercelToken string
  | ToggleBetaDeploy bool
  | SubmitLogin
  | LoginSettles nat "(unit, string) fetched"
  | TypePrompt string
  | SetMode Mode
  | ClickGenerate
  | GenerateSettles nat "thrown + GeneratedProject" string int
  | ClickSave string int
  | ClickDeploy nat
  | DeploySettles nat deploy_env
  | BackToEditor
  | CreateNewApp
  | ToggleAbout
  | OpenHistory
  | CloseHistory
  | ClickHistoryEntry nat
  | ClickDeleteEntry nat
  | ClickSync
  | SyncSettles nat "SavedProject list option"

definition drop_nth :: "nat \<Rightarrow> 'a list \<Rightarrow> 'a list" where
  "drop_nth i xs = take i xs @ drop (Suc i) xs"

text \<open>
  One event. A control that is not rendered or is disabled does not call its handler, and
  a settling that names no suspended call does not happen: the machine stays as it is.
  A suspended \<open>handleDeploy\<close> continues in one step from the answer to the repository
  creation to its end.
  The effect that runs when the component is mounted (restoring a saved session) is not
  part of the machine.
\<close>

fun dispatch :: "event \<Rightarrow> Machine \<Rightarrow> Machine" where
  "dispatch (TypeGithubToken s) m =
     (if login_form (app m)
      then m\<lparr>app := (app m)\<lparr>config := (config (app m))\<lparr>githubToken := s\<rparr>\<rparr>\<rparr>
      else m)"
| "dispatch (TypeVercelToken s) m =
     (if login_form (app m)
      then m\<lparr>app := (app m)\<lparr>config := (config (app m))\<lparr>vercelToken := Some s\<rparr>\<rparr>\<rparr>
      else m)"
| "dispatch (ToggleBetaDeploy b) m =
     (if login_form (app m) \<and> vercelToken (config (app m)) \<noteq> None
         \<and> vercelToken (config (app m)) \<noteq> Some []
      then m\<lparr>app := (app m)\<lparr>config := (config (app m))\<lparr>useBetaDeploy := Some b\<rparr>\<rparr>\<rparr>
      else m)"
| "dispatch SubmitLogin m =
     (if login_form (app m)
      then (case handleLogin_begin (app m) of
              None \<Rightarrow> m
            | Some st1 \<Rightarrow> m\<lparr>app := st1, logins := logins m @ [app m]\<rparr>)
      else m)"
| "dispatch (LoginSettles i response) m =
     (if i < length (logins m)
      then (let cap = logins m ! i in
            case handleLogin_resume cap
                   (verifyGithubToken (githubToken (config cap)) response) (app m) of
              (st1, started) \<Rightarrow>
                m\<lparr>app := st1, logins := drop_nth i (logins m),
                  syncs := (if started then syncs m @ [False] else syncs m)\<rparr>)
      else m)"
| "dispatch (TypePrompt s) m =
     (if prompt_panel (app m) \<and> step (app m) \<noteq> GENERATING
      then m\<lparr>app := (app m)\<lparr>prompt_st := s\<rparr>\<rparr>
      else m)"
| "dispatch (SetMode md) m =
     (if prompt_panel (app m) \<and> step (app m) \<noteq> GENERATING
      then m\<lparr>app := (app m)\<lparr>mode := md\<rparr>\<rparr>
      else m)"
| "dispatch ClickGenerate m =
     (if generate_enabled (app m)
      then (case handleGenerate_begin (app m) of
              None \<Rightarrow> m
            | Some st1 \<Rightarrow> m\<lparr>app := st1, generations := generations m @ [app m]\<rparr>)
      else m)"
| "dispatch (GenerateSettles i outcome rnd now) m =
     (if i < length (generations m)
      then m\<lparr>app := handleGenerate_resume (generations m ! i) outcome rnd now (app m),
             generations := drop_nth i (generations m)\<rparr>
      else m)"
| "dispatch (ClickSave rnd now) m =
     (if review_panel (app m) then m\<lparr>app := saveCurrentProject rnd now (app m)\<rparr> else m)"
| "dispatch (ClickDeploy rnd) m =
     (if deploy_enabled (app m)
      then (case handleDeploy_begin rnd (app m) of
              None \<Rightarrow> m
            | Some (st1, run) \<Rightarrow> m\<lparr>app := st1, deployments := deployments m @ [run]\<rparr>)
      else m)"
| "dispatch (DeploySettles i env) m =
     (if i < length (deployments m)
      then m\<lparr>app := fst (handleDeploy_resume (deployments m ! i) env (app m)),
             deployments := drop_nth i (deployments m)\<rparr>
      else m)"
| "dispatch BackToEditor m =
     (if (review_panel (app m) \<and> step (app m) = REVIEW) \<or> success_panel (app m)
      then m\<lparr>app := (app m)\<lparr>step := PROMPT\<rparr>\<rparr>
      else m)"
| "dispatch CreateNewApp m =
     (if success_panel (app m)
      then m\<lparr>app := (app m)\<lparr>step := PROMPT, project_st := None, logs := [], prompt_st := []\<rparr>\<rparr>
      else m)"
| "dispatch ToggleAbout m = m\<lparr>app := (app m)\<lparr>showAbout := \<not> showAbout (app m)\<rparr>\<rparr>"
| "dispatch OpenHistory m =
     (if step (app m) \<noteq> CONFIG then m\<lparr>app := (app m)\<lparr>showHistory := True\<rparr>\<rparr> else m)"
| "dispatch CloseHistory m =
     (if showHistory (app m) then m\<lparr>app := (app m)\<lparr>showHistory := False\<rparr>\<rparr> else m)"
| "dispatch (ClickHistoryEntry i) m =
     (if showHistory (app m) \<and> i < length (savedProjects (app m))
      then m\<lparr>app := loadProject (savedProjects (app m) ! i) (app m)\<rparr>
      else m)"
| "dispatch (ClickDeleteEntry i) m =
     (if showHistory (app m) \<and> i < length (savedProjects (app m))
      then m\<lparr>app := deleteProject (id_sp (savedProjects (app m) ! i)) (app m)\<rparr>
      else m)"
| "dispatch ClickSync m =
     (if showHistory (app m) \<and> githubToken (config (app m)) \<noteq> [] \<and> \<not> isSyncing (app m)
      then (case syncHistory_begin (githubToken (config (app m))) False (app m) of
              None \<Rightarrow> m
            | Some st1 \<Rightarrow> m\<lparr>app := st1, syncs := syncs m @ [False]\<rparr>)
      else m)"
| "dispatch (SyncSettles i cloudHistory) m =
     (if i < length (syncs m)
      then m\<lparr>app := syncHistory_resume (syncs m ! i) cloudHistory (app m),
             syncs := drop_nth i (syncs m)\<rparr>
      else m)"

definition run_events :: "event list \<Rightarrow> Machine \<Rightarrow> Machine" where
  "run_events evs m = foldl (\<lambda>m' e. dispatch e m') m evs"

text \<open>The machine when the component is mounted: nothing is suspended.\<close>

definition machine0 :: Machine where
  "machine0 = \<lparr>app = app0, logins = [], generations = [], deployments = [], syncs = []\<rparr>"

section \<open>Reading a list of requests\<close>

text \<open>The files that the upload requests of a run carry, in the order of the requests.\<close>

fun uploaded :: "request list \<Rightarrow> FileNode list" where
  "uploaded [] = []"
| "uploaded (PutContents token username repoName p c s # reqs) =
     \<lparr>path = p, content = c\<rparr> # uploaded reqs"
| "uploaded (other # reqs) = uploaded reqs"

text \<open>The hosting requests of a run.\<close>

fun hosting_requests :: "request list \<Rightarrow> request list" where
  "hosting_requests [] = []"
| "hosting_requests (CreateVercel t n r # reqs) = CreateVercel t n r # hosting_requests reqs"
| "hosting_requests (other # reqs) = hosting_requests reqs"

text \<open>An upload succeeds when its request resolves to a response with \<open>ok\<close> set.\<close>

definition put_ok :: "(unit, unit) fetched \<Rightarrow> bool" where
  "put_ok response = (case response of Ok b \<Rightarrow> True | _ \<Rightarrow> False)"

text \<open>
  What the loop of \<open>pushFilesToRepo\<close> throws for a file whose upload did not succeed:
  the error of a rejected request, \<open>Failed to upload <path>\<close> otherwise.
\<close>

definition upload_error :: "FileNode \<Rightarrow> (unit, unit) fetched \<Rightarrow> thrown" where
  "upload_error file response =
     (case response of
        Rejected e \<Rightarrow> e
      | _ \<Rightarrow> JsError (''Failed to upload '' @ path file))"

section \<open>Sample values\<close>

definition index_html :: FileNode where
  "index_html = \<lparr>path = ''index.html'', content = ''<div id=app></div>''\<rparr>"

definition main_ts :: FileNode where
  "main_ts = \<lparr>path = ''src/main.ts'', content = ''render()''\<rparr>"

definition demo_project :: GeneratedProject where
  "demo_project = \<lparr>name = ''demo'', description = ''a demo'', files = [index_html, main_ts]\<rparr>"

definition rec_a :: SavedProject where
  "rec_a = \<lparr>id_sp = ''a'', timestamp = 5, prompt = ''a page'', project = demo_project\<rparr>"

definition rec_b :: SavedProject where
  "rec_b = \<lparr>id_sp = ''b'', timestamp = 9, prompt = ''a game'', project = demo_project\<rparr>"

definition rec_c :: SavedProject where
  "rec_c = \<lparr>id_sp = ''c'', timestamp = 7, prompt = ''a blog'', project = demo_project\<rparr>"

text \<open>A local record with the id of \<open>rec_a\<close> and another timestamp and prompt.\<close>

definition rec_a_local :: SavedProject where
  "rec_a_local = \<lparr>id_sp = ''a'', timestamp = 100, prompt = ''edited'', project = demo_project\<rparr>"

definition cfg_manual :: AppConfig where
  "cfg_manual = \<lparr>githubToken = ''ghp_token'', vercelToken = Some [], githubUsername = ''octo'',
                  useBetaDeploy = Some False\<rparr>"

definition cfg_beta :: AppConfig where
  "cfg_beta = \<lparr>githubToken = ''ghp_token'', vercelToken = Some ''vercel_token'',
                githubUsername = ''octo'', useBetaDeploy = Some True\<rparr>"

text \<open>A session in the review phase, with \<open>demo_project\<close> on screen.\<close>

definition st_review :: "AppConfig \<Rightarrow> App" where
  "st_review cfg = app0\<lparr>step := REVIEW, config := cfg, prompt_st := ''a page'',
                         project_st := Some demo_project\<rparr>"

text \<open>
  Hosts that accept everything: the repository is created, no path holds content yet,
  every upload is accepted, the hosting project is created.
\<close>

definition env_ok :: deploy_env where
  "env_ok = \<lparr>repo_response = Ok (Json \<lparr>html_url = ''https://github.com/octo/demo''\<rparr>),
              probe_response = (\<lambda>i. NotOk (Json ())),
              put_response = (\<lambda>i. Ok (Json ())),
              vercel_response = Ok (Json (Some \<lparr>vp_name = ''demo'',
                                   vp_html_url = ''https://vercel.com/octo/demo''\<rparr>))\<rparr>"

text \<open>The second upload is answered without \<open>ok\<close>.\<close>

definition env_second_upload_refused :: deploy_env where
  "env_second_upload_refused =
     env_ok\<lparr>put_response := (\<lambda>i. if i = 1 then NotOk (Json ()) else Ok (Json ()))\<rparr>"

text \<open>The request of the first upload is rejected by the network.\<close>

definition env_upload_rejected :: deploy_env where
  "env_upload_rejected = env_ok\<lparr>put_response := (\<lambda>i. Rejected (JsError ''Failed to fetch''))\<rparr>"

definition env_repo_refused :: deploy_env where
  "env_repo_refused =
     env_ok\<lparr>repo_response := NotOk (Json \<lparr>gh_message = Some ''Bad credentials''\<rparr>)\<rparr>"

definition env_hosting_refused :: deploy_env where
  "env_hosting_refused =
     env_ok\<lparr>vercel_response :=
              NotOk (Json \<lparr>code = Some ''forbidden'', v_message = Some ''Not authorized''\<rparr>)\<rparr>"

definition env_hosting_exists :: deploy_env where
  "env_hosting_exists =
     env_ok\<lparr>vercel_response :=
              NotOk (Json \<lparr>code = Some ''PROJECT_ALREADY_EXISTS'',
                           v_message = Some ''Project already exists''\<rparr>)\<rparr>"

text \<open>A session in the prompt phase, and the same session with one local record.\<close>

definition st_prompt :: App where
  "st_prompt = app0\<lparr>step := PROMPT, config := cfg_manual, prompt_st := ''a page''\<rparr>"


text \<open>
  The session \<open>st_prompt\<close> while its generation is suspended, with the history panel
  opened in the meantime.
\<close>

definition st_prompt_waiting :: App where
  "st_prompt_waiting = st_prompt\<lparr>step := GENERATING, showHistory := True\<rparr>"

text \<open>
  Two generations from the same prompt; \<open>0.i\<close> and \<open>0.9\<close> are the texts of
  \<open>(0.5).toString(36)\<close> and \<open>(0.25).toString(36)\<close>. Between them the user goes back to
  the editor.
\<close>

definition st_generated_once :: App where
  "st_generated_once = handleGenerate (Inr demo_project) ''0.i'' 1000 st_prompt"

definition st_generated_twice :: App where
  "st_generated_twice =
     handleGenerate (Inr demo_project) ''0.9'' 2000 (st_generated_once\<lparr>step := PROMPT\<rparr>)"



text \<open>
  A session: login, a prompt, a generation that succeeds, a deployment started; then,
  while that deployment is suspended, the history is opened, its entry is loaded, and a
  deployment is started again.
\<close>

definition session_until_first_deploy :: "event list" where
  "session_until_first_deploy =
     [TypeGithubToken ''ghp_token'', SubmitLogin, LoginSettles 0 (Ok (Json ''octo'')),
      SyncSettles 0 None, TypePrompt ''a page'', ClickGenerate,
      GenerateSettles 0 (Inr demo_project) ''0.4fzyo82mvyr'' 1000, ClickDeploy 7]"

definition session_second_deploy :: "event list" where
  "session_second_deploy =
     session_until_first_deploy @ [OpenHistory, ClickHistoryEntry 0, ClickDeploy 8]"

section \<open>Properties of the reconciliation\<close>

lemma forEach_push_distinct:
  "distinct (map id_sp prev) \<Longrightarrow>
   forEach_push combined prev =
     combined @ filter (\<lambda>p. id_sp p \<notin> id_sp ` set combined) prev"
proof (induction prev arbitrary: combined)
  case Nil
  show ?case by simp
next
  case (Cons p prev)
  from Cons.prems have fresh: "\<forall>q\<in>set prev. id_sp q \<noteq> id_sp p"
    and d: "distinct (map id_sp prev)"
    by (auto simp: image_iff)
  show ?case
  proof (cases "id_sp p \<in> id_sp ` set combined")
    case True
    then obtain c where "List.find (\<lambda>c. id_sp c = id_sp p) combined = Some c"
      by (cases "List.find (\<lambda>c. id_sp c = id_sp p) combined") (auto simp: find_None_iff)
    with True Cons.IH [OF d, of combined] show ?thesis by simp
  next
    case False
    then have none: "List.find (\<lambda>c. id_sp c = id_sp p) combined = None"
      unfolding find_None_iff by (metis imageI)
    have "filter (\<lambda>q. id_sp q \<notin> id_sp ` set (combined @ [p])) prev =
          filter (\<lambda>q. id_sp q \<notin> id_sp ` set combined) prev"
      using fresh by (intro filter_cong) auto
    with none False Cons.IH [OF d, of "combined @ [p]"] show ?thesis by simp
  qed
qed

lemma forEach_push_keeps_base:
  "i \<in> id_sp ` set combined \<Longrightarrow>
   filter (\<lambda>x. id_sp x = i) (forEach_push combined prev) = filter (\<lambda>x. id_sp x = i) combined"
proof (induction prev arbitrary: combined)
  case Nil
  show ?case by simp
next
  case (Cons p prev)
  show ?case
  proof (cases "List.find (\<lambda>c. id_sp c = id_sp p) combined = None")
    case True
    then have "id_sp p \<notin> id_sp ` set combined"
      by (auto simp: find_None_iff)
    with Cons.prems have ne: "id_sp p \<noteq> i" by auto
    from Cons.prems have "i \<in> id_sp ` set (combined @ [p])" by auto
    from Cons.IH [OF this] True ne show ?thesis by simp
  next
    case False
    then obtain c where "List.find (\<lambda>c. id_sp c = id_sp p) combined = Some c"
      by auto
    with Cons.IH [OF Cons.prems] show ?thesis by simp
  qed
qed

lemma sort_desc_sorted: "sorted_wrt (\<lambda>a b. timestamp b \<le> timestamp a) (sort_desc xs)"
proof -
  have "sorted (map (\<lambda>r. - timestamp r) (sort_key (\<lambda>r. - timestamp r) xs))"
    by (rule sorted_sort_key)
  then show ?thesis
    by (simp add: sort_desc_def sorted_map)
qed

lemma mset_sort_desc: "mset (sort_desc xs) = mset xs"
  by (simp add: sort_desc_def)

lemma set_sort_desc: "set (sort_desc xs) = set xs"
  by (simp add: sort_desc_def)

lemma length_sort_desc: "length (sort_desc xs) = length xs"
  by (simp add: sort_desc_def)

text \<open>
  C1. For a local list \<open>L\<close> and a remote list \<open>R\<close>, each without repeated ids, the merge
  has \<open>|R|\<close> plus the number of local records whose id is not in \<open>R\<close> as its length,
  carries exactly the ids of \<open>L\<close> and \<open>R\<close>, is ordered by non-increasing timestamp, and is
  the sorted form of \<open>R\<close> followed by the local records whose id \<open>R\<close> lacks.
\<close>

theorem merge_base_length_ids_sorted:
  assumes "distinct (map id_sp L)" and "distinct (map id_sp R)"
  shows "length (mergeHistory L R) =
           length R + length (filter (\<lambda>p. id_sp p \<notin> id_sp ` set R) L)
       \<and> id_sp ` set (mergeHistory L R) = id_sp ` set L \<union> id_sp ` set R
       \<and> sorted_wrt (\<lambda>a b. timestamp b \<le> timestamp a) (mergeHistory L R)
       \<and> mergeHistory L R = sort_desc (R @ filter (\<lambda>p. id_sp p \<notin> id_sp ` set R) L)"
proof -
  have eq: "forEach_push R L = R @ filter (\<lambda>p. id_sp p \<notin> id_sp ` set R) L"
    using assms(1) by (rule forEach_push_distinct)
  have len: "length (mergeHistory L R) =
      length R + length (filter (\<lambda>p. id_sp p \<notin> id_sp ` set R) L)"
    by (simp add: mergeHistory_def length_sort_desc eq)
  have "set (mergeHistory L R) = set R \<union> {p \<in> set L. id_sp p \<notin> id_sp ` set R}"
    by (simp add: mergeHistory_def set_sort_desc eq)
  then have ids: "id_sp ` set (mergeHistory L R) = id_sp ` set L \<union> id_sp ` set R"
    by auto
  have srt: "sorted_wrt (\<lambda>a b. timestamp b \<le> timestamp a) (mergeHistory L R)"
    unfolding mergeHistory_def by (rule sort_desc_sorted)
  have base: "mergeHistory L R = sort_desc (R @ filter (\<lambda>p. id_sp p \<notin> id_sp ` set R) L)"
    by (simp add: mergeHistory_def eq)
  from len ids srt base show ?thesis by blast
qed

lemmas sample_records = rec_a_def rec_b_def rec_c_def rec_a_local_def

lemmas sample_states = st_review_def app0_def cfg_beta_def cfg_manual_def demo_project_def
  index_html_def main_ts_def

theorem merge_base_length_ids_sorted_witness:
  "distinct (map id_sp [rec_a, rec_c]) \<and> distinct (map id_sp [rec_a, rec_b])
   \<and> length (mergeHistory [rec_a, rec_c] [rec_a, rec_b]) = 3
   \<and> id_sp ` set (mergeHistory [rec_a, rec_c] [rec_a, rec_b]) = {''a'', ''b'', ''c''}
   \<and> mergeHistory [rec_a, rec_c] [rec_a, rec_b] = [rec_b, rec_c, rec_a]"
proof -
  have dl: "distinct (map id_sp [rec_a, rec_c])" by (simp add: sample_records)
  have dr: "distinct (map id_sp [rec_a, rec_b])" by (simp add: sample_records)
  note inst = merge_base_length_ids_sorted [OF dl dr]
  have keep: "filter (\<lambda>p. id_sp p \<notin> id_sp ` set [rec_a, rec_b]) [rec_a, rec_c] = [rec_c]"
    by (simp add: sample_records)
  have len: "length (mergeHistory [rec_a, rec_c] [rec_a, rec_b]) = 3"
    using inst keep by (simp add: length_sort_desc)
  have ids: "id_sp ` set (mergeHistory [rec_a, rec_c] [rec_a, rec_b]) = {''a'', ''b'', ''c''}"
    using inst by (auto simp: sample_records set_sort_desc)
  have "mergeHistory [rec_a, rec_c] [rec_a, rec_b] = sort_desc [rec_a, rec_b, rec_c]"
    using inst keep by simp
  also have "\<dots> = [rec_b, rec_c, rec_a]"
    by (simp add: sort_desc_def sample_records)
  finally show ?thesis using dl dr len ids by simp
qed

text \<open>
  C9. When the id of a local record \<open>p\<close> also occurs in the remote list, the records of
  the merge with that id are exactly the remote records with that id, and \<open>p\<close> itself is
  in the merge only if it is one of the remote records: a local copy that differs from the
  remote one in any field is dropped.
\<close>

theorem remote_wins_on_id_collision:
  assumes "p \<in> set L" and "id_sp p \<in> id_sp ` set R"
  shows "mset (filter (\<lambda>x. id_sp x = id_sp p) (mergeHistory L R)) =
           mset (filter (\<lambda>x. id_sp x = id_sp p) R)
       \<and> (p \<notin> set R \<longrightarrow> p \<notin> set (mergeHistory L R))"
proof -
  have "mset (filter (\<lambda>x. id_sp x = id_sp p) (mergeHistory L R)) =
        mset (filter (\<lambda>x. id_sp x = id_sp p) (forEach_push R L))"
    by (simp add: mergeHistory_def mset_sort_desc)
  also have "\<dots> = mset (filter (\<lambda>x. id_sp x = id_sp p) R)"
    using assms(2) by (simp add: forEach_push_keeps_base)
  finally have eq: "mset (filter (\<lambda>x. id_sp x = id_sp p) (mergeHistory L R)) =
                    mset (filter (\<lambda>x. id_sp x = id_sp p) R)" .
  have "p \<in> set R" if "p \<in> set (mergeHistory L R)"
  proof -
    from that have "p \<in> set (filter (\<lambda>x. id_sp x = id_sp p) (mergeHistory L R))" by simp
    then have "p \<in># mset (filter (\<lambda>x. id_sp x = id_sp p) (mergeHistory L R))"
      by (simp only: set_mset_mset)
    with eq have "p \<in># mset (filter (\<lambda>x. id_sp x = id_sp p) R)" by simp
    then show ?thesis by simp
  qed
  with eq show ?thesis by blast
qed

theorem remote_wins_on_id_collision_witness:
  "rec_a_local \<in> set [rec_a_local, rec_c] \<and> id_sp rec_a_local \<in> id_sp ` set [rec_a, rec_b]
   \<and> rec_a_local \<notin> set [rec_a, rec_b]
   \<and> rec_a_local \<notin> set (mergeHistory [rec_a_local, rec_c] [rec_a, rec_b])
   \<and> rec_a \<in> set (mergeHistory [rec_a_local, rec_c] [rec_a, rec_b])"
proof -
  have h1: "rec_a_local \<in> set [rec_a_local, rec_c]" by simp
  have h2: "id_sp rec_a_local \<in> id_sp ` set [rec_a, rec_b]" by (simp add: sample_records)
  have h3: "rec_a_local \<notin> set [rec_a, rec_b]" by (simp add: sample_records)
  note inst = remote_wins_on_id_collision [OF h1 h2]
  from inst h3 have gone: "rec_a_local \<notin> set (mergeHistory [rec_a_local, rec_c] [rec_a, rec_b])"
    by blast
  from inst have "rec_a \<in># mset (filter (\<lambda>x. id_sp x = id_sp rec_a_local)
      (mergeHistory [rec_a_local, rec_c] [rec_a, rec_b]))"
    by (simp add: sample_records)
  then have "rec_a \<in> set (mergeHistory [rec_a_local, rec_c] [rec_a, rec_b])"
    by simp
  with h1 h2 h3 gone show ?thesis by blast
qed

section \<open>Properties of the deployment pipeline\<close>


lemma uploaded_append: "uploaded (xs @ ys) = uploaded xs @ uploaded ys"
  by (induction xs rule: uploaded.induct) simp_all

lemma hosting_requests_append:
  "hosting_requests (xs @ ys) = hosting_requests xs @ hosting_requests ys"
  by (induction xs rule: hosting_requests.induct) simp_all

lemma push_no_hosting:
  "pushFilesToRepo token username repoName fs env i = (msgs, reqs, r) \<Longrightarrow>
   hosting_requests reqs = []"
proof (induction fs arbitrary: i msgs reqs r)
  case Nil
  then show ?case by simp
next
  case (Cons f fs)
  show ?case
  proof (cases "put_response env i")
    case (Ok b)
    obtain ms rs res where rec: "pushFilesToRepo token username repoName fs env (Suc i) = (ms, rs, res)"
      by (cases "pushFilesToRepo token username repoName fs env (Suc i)") auto
    from Cons.IH [OF rec] have "hosting_requests rs = []" .
    with Cons.prems Ok rec show ?thesis
      by (auto simp: Let_def)
  qed (use Cons.prems in \<open>auto simp: Let_def\<close>)
qed

lemma push_all_ok:
  "\<forall>j<length fs. put_ok (put_response env (i + j)) \<Longrightarrow>
   (case pushFilesToRepo token username repoName fs env i of
      (msgs, reqs, r) \<Rightarrow>
        msgs = map (\<lambda>f. ''Pushing '' @ path f @ ''...'') fs \<and> uploaded reqs = fs \<and> r = Inr ())"
proof (induction fs arbitrary: i)
  case Nil
  show ?case by simp
next
  case (Cons f fs)
  from Cons.prems have ok0: "put_ok (put_response env i)" by force
  have "\<forall>j<length fs. put_ok (put_response env (Suc i + j))"
  proof (intro allI impI)
    fix j assume "j < length fs"
    then have "Suc j < length (f # fs)" by simp
    with Cons.prems have "put_ok (put_response env (i + Suc j))" by blast
    then show "put_ok (put_response env (Suc i + j))" by simp
  qed
  from Cons.IH [OF this] ok0 show ?case
    by (auto simp: Let_def put_ok_def split: fetched.splits prod.splits)
qed

lemma push_fails_at:
  "k < length fs \<Longrightarrow> \<forall>j<k. put_ok (put_response env (i + j)) \<Longrightarrow>
   \<not> put_ok (put_response env (i + k)) \<Longrightarrow>
   (case pushFilesToRepo token username repoName fs env i of
      (msgs, reqs, r) \<Rightarrow>
        msgs = map (\<lambda>f. ''Pushing '' @ path f @ ''...'') (take (Suc k) fs)
        \<and> uploaded reqs = take (Suc k) fs
        \<and> r = Inl (case put_response env (i + k) of
                     Rejected e \<Rightarrow> e
                   | _ \<Rightarrow> JsError (''Failed to upload '' @ path (fs ! k))))"
proof (induction fs arbitrary: i k)
  case Nil
  then show ?case by simp
next
  case (Cons f fs)
  show ?case
  proof (cases k)
    case 0
    with Cons.prems(3) show ?thesis
      by (auto simp: Let_def put_ok_def split: fetched.splits)
  next
    case (Suc k')
    from Cons.prems(2) Suc have ok0: "put_ok (put_response env i)" by force
    have a: "k' < length fs" using Cons.prems(1) Suc by simp
    have b: "\<forall>j<k'. put_ok (put_response env (Suc i + j))"
    proof (intro allI impI)
      fix j assume "j < k'"
      then have "Suc j < k" using Suc by simp
      with Cons.prems(2) have "put_ok (put_response env (i + Suc j))" by blast
      then show "put_ok (put_response env (Suc i + j))" by simp
    qed
    have c: "\<not> put_ok (put_response env (Suc i + k'))"
      using Cons.prems(3) Suc by simp
    from Cons.IH [OF a b c] ok0 Suc show ?thesis
      by (auto simp: Let_def put_ok_def split: fetched.splits prod.splits)
  qed
qed


lemma foldl_addLog:
  "foldl (\<lambda>s m. addLog m LInfo s) st msgs =
     st\<lparr>logs := logs st @ map (\<lambda>m. \<lparr>message = m, ltype = LInfo\<rparr>) msgs\<rparr>"
  by (induction msgs arbitrary: st) (simp_all add: addLog_def)

lemma addLog_sel [simp]:
  "logs (addLog m t s) = logs s @ [\<lparr>message = m, ltype = t\<rparr>]"
  "step (addLog m t s) = step s"
  "deploymentResult (addLog m t s) = deploymentResult s"
  "savedProjects (addLog m t s) = savedProjects s"
  "stored_history (addLog m t s) = stored_history s"
  "gist_saves (addLog m t s) = gist_saves s"
  "project_st (addLog m t s) = project_st s"
  "prompt_st (addLog m t s) = prompt_st s"
  "config (addLog m t s) = config s"
  by (simp_all add: addLog_def)

lemma handleError_sel [simp]:
  "logs (handleError e s) =
     logs s @ [\<lparr>message = (case e of JsError m \<Rightarrow> m
                            | NonError \<Rightarrow> ''An unexpected error occurred in my systems.''),
                ltype = LError\<rparr>]"
  "step (handleError e s) = step s"
  "deploymentResult (handleError e s) = deploymentResult s"
  "savedProjects (handleError e s) = savedProjects s"
  by (simp_all add: handleError_def)

lemma foldl_addLog_sel [simp]:
  "logs (foldl (\<lambda>s m. addLog m LInfo s) st msgs) =
     logs st @ map (\<lambda>m. \<lparr>message = m, ltype = LInfo\<rparr>) msgs"
  "step (foldl (\<lambda>s m. addLog m LInfo s) st msgs) = step st"
  "deploymentResult (foldl (\<lambda>s m. addLog m LInfo s) st msgs) = deploymentResult st"
  by (simp_all add: foldl_addLog)

lemma begin_Some:
  "project_st st = Some p \<Longrightarrow> githubUsername (config st) \<noteq> [] \<Longrightarrow>
   handleDeploy_begin rnd st =
     Some (addLog (''1. Creating repository '' @ [CHR 0x27] @ (name p @ ''-'' @ decimal rnd)
                     @ [CHR 0x27] @ '' on GitHub...'') LInfo
             (addLog ''Initiating deployment sequence...'' LWarning (st\<lparr>step := DEPLOYING\<rparr>)),
           \<lparr>run_project = p, run_config = config st,
            run_repoName = name p @ ''-'' @ decimal rnd\<rparr>)"
  by (simp add: handleDeploy_begin_def Let_def)

lemma resume_repo_fail:
  "createRepository (githubToken (run_config run)) (run_repoName run)
      (description (run_project run)) (repo_response env) = Inl err \<Longrightarrow>
   handleDeploy_resume run env st =
     ((handleError err st)\<lparr>step := REVIEW\<rparr>,
      [CreateRepo (githubToken (run_config run)) (run_repoName run)
         (description (run_project run))])"
  by (simp add: handleDeploy_resume_def Let_def)

lemma resume_push_fail:
  "createRepository (githubToken (run_config run)) (run_repoName run)
      (description (run_project run)) (repo_response env) = Inr repoData \<Longrightarrow>
   pushFilesToRepo (githubToken (run_config run)) (githubUsername (run_config run))
      (run_repoName run) (files (run_project run)) env 0 = (msgs, reqs, Inl err) \<Longrightarrow>
   handleDeploy_resume run env st =
     ((handleError err
         (foldl (\<lambda>s m. addLog m LInfo s)
            (addLog ''2. Uploading source code...'' LInfo
               (addLog ''GitHub Repository created successfully.'' LSuccess st)) msgs))
        \<lparr>step := REVIEW\<rparr>,
      CreateRepo (githubToken (run_config run)) (run_repoName run)
         (description (run_project run)) # reqs)"
  by (simp add: handleDeploy_resume_def Let_def)

lemma resume_push_ok:
  "createRepository (githubToken (run_config run)) (run_repoName run)
      (description (run_project run)) (repo_response env) = Inr repoData \<Longrightarrow>
   pushFilesToRepo (githubToken (run_config run)) (githubUsername (run_config run))
      (run_repoName run) (files (run_project run)) env 0 = (msgs, reqs, Inr u) \<Longrightarrow>
   provision_hosting run env
     (addLog ''Source code uploaded.'' LSuccess
        (foldl (\<lambda>s m. addLog m LInfo s)
            (addLog ''2. Uploading source code...'' LInfo
               (addLog ''GitHub Repository created successfully.'' LSuccess st)) msgs))
     = (st5, vreqs, vUrl, isBetaSuccess) \<Longrightarrow>
   handleDeploy_resume run env st =
     (st5\<lparr>deploymentResult :=
            Some \<lparr>repoUrl = html_url repoData,
                  deployUrl = (case vUrl of None \<Rightarrow> None
                               | Some u \<Rightarrow> if u = [] then None else Some u),
                  isBeta = isBetaSuccess\<rparr>,
          step := SUCCESS\<rparr>,
      CreateRepo (githubToken (run_config run)) (run_repoName run)
         (description (run_project run)) # reqs @ vreqs)"
  by (simp add: handleDeploy_resume_def Let_def)

text \<open>
  C3. When the creation of the repository fails, the run issues that one request and
  nothing else: no upload, no hosting request. The error that \<open>createRepository\<close> threw
  is handed to \<open>handleError\<close> as it is, which logs its message as an error; the phase
  goes back to \<open>REVIEW\<close> and the deployment result is left as it was.
\<close>

theorem repo_creation_failure_aborts:
  assumes "project_st st = Some p" and "githubUsername (config st) \<noteq> []"
    and "createRepository (githubToken (config st)) (name p @ ''-'' @ decimal rnd)
           (description p) (repo_response env) = Inl err"
  shows "case handleDeploy rnd env st of
           (st', reqs) \<Rightarrow>
             reqs = [CreateRepo (githubToken (config st)) (name p @ ''-'' @ decimal rnd)
                       (description p)]
           \<and> uploaded reqs = [] \<and> hosting_requests reqs = []
           \<and> st' =
               (handleError err
                  (addLog (''1. Creating repository '' @ [CHR 0x27]
                             @ (name p @ ''-'' @ decimal rnd) @ [CHR 0x27] @ '' on GitHub...'') LInfo
                     (addLog ''Initiating deployment sequence...'' LWarning
                        (st\<lparr>step := DEPLOYING\<rparr>))))\<lparr>step := REVIEW\<rparr>
           \<and> step st' = REVIEW
           \<and> deploymentResult st' = deploymentResult st
           \<and> logs st' =
               logs (addLog (''1. Creating repository '' @ [CHR 0x27]
                               @ (name p @ ''-'' @ decimal rnd) @ [CHR 0x27] @ '' on GitHub...'') LInfo
                       (addLog ''Initiating deployment sequence...'' LWarning st))
               @ [\<lparr>message = (case err of
                                JsError m \<Rightarrow> m
                              | NonError \<Rightarrow> ''An unexpected error occurred in my systems.''),
                    ltype = LError\<rparr>]"
  using assms
  by (simp add: handleDeploy_def begin_Some resume_repo_fail)

theorem repo_creation_failure_aborts_witness:
  "project_st (st_review cfg_beta) = Some demo_project
   \<and> githubUsername (config (st_review cfg_beta)) \<noteq> []
   \<and> createRepository (githubToken (config (st_review cfg_beta)))
        (name demo_project @ ''-'' @ decimal 7) (description demo_project)
        (repo_response env_repo_refused)
      = Inl (JsError ''GitHub Create Repo Error: Bad credentials'')
   \<and> (case handleDeploy 7 env_repo_refused (st_review cfg_beta) of
         (st', reqs) \<Rightarrow>
           uploaded reqs = [] \<and> hosting_requests reqs = [] \<and> step st' = REVIEW
         \<and> deploymentResult st' = None
         \<and> last (logs st') =
              \<lparr>message = ''GitHub Create Repo Error: Bad credentials'', ltype = LError\<rparr>)"
proof -
  have h1: "project_st (st_review cfg_beta) = Some demo_project"
    by (simp add: st_review_def)
  have h2: "githubUsername (config (st_review cfg_beta)) \<noteq> []"
    by (simp add: st_review_def cfg_beta_def)
  have h3: "createRepository (githubToken (config (st_review cfg_beta)))
        (name demo_project @ ''-'' @ decimal 7) (description demo_project)
        (repo_response env_repo_refused)
      = Inl (JsError ''GitHub Create Repo Error: Bad credentials'')"
    by (simp add: createRepository_def env_repo_refused_def env_ok_def interpolate_def)
  have none: "deploymentResult (st_review cfg_beta) = None"
    by (simp add: st_review_def app0_def)
  from repo_creation_failure_aborts [OF h1 h2 h3] none h1 h2 h3 show ?thesis
    by (simp split: prod.splits)
qed

lemma uploads_ok_run:
  assumes "\<forall>j<length fs. put_ok (put_response env j)"
  obtains reqs where
    "pushFilesToRepo token username repoName fs env 0 =
       (map (\<lambda>f. ''Pushing '' @ path f @ ''...'') fs, reqs, Inr ())"
    and "uploaded reqs = fs" and "hosting_requests reqs = []"
proof -
  obtain msgs reqs r where run: "pushFilesToRepo token username repoName fs env 0 = (msgs, reqs, r)"
    by (cases "pushFilesToRepo token username repoName fs env 0") auto
  from assms have "\<forall>j<length fs. put_ok (put_response env (0 + j))" by simp
  from push_all_ok [OF this, of token username repoName] run
  have "msgs = map (\<lambda>f. ''Pushing '' @ path f @ ''...'') fs" "uploaded reqs = fs" "r = Inr ()"
    by simp_all
  with run push_no_hosting [OF run] that show ?thesis by blast
qed

text \<open>
  C4. When the repository is created, every upload succeeds and the hosting call is made
  and fails, the run ends in \<open>SUCCESS\<close> with a result that carries the url of the
  repository, no hosting url and \<open>isBeta = False\<close>; the failure is the last log line, a
  warning, and the run adds no error line.
\<close>

theorem hosting_failure_is_not_fatal:
  assumes "project_st st = Some p" and "githubUsername (config st) \<noteq> []"
    and "createRepository (githubToken (config st)) (name p @ ''-'' @ decimal rnd)
           (description p) (repo_response env) = Inr repoData"
    and "\<forall>j<length (files p). put_ok (put_response env j)"
    and "useBetaDeploy (config st) = Some True"
    and "vercelToken (config st) = Some vt" and "vt \<noteq> []"
    and "createVercelProject vt (name p @ ''-'' @ decimal rnd)
           (githubUsername (config st) @ ''/'' @ (name p @ ''-'' @ decimal rnd))
           (vercel_response env) = Inl e"
  shows "case handleDeploy rnd env st of
           (st', reqs) \<Rightarrow>
             step st' = SUCCESS
           \<and> deploymentResult st' =
               Some \<lparr>repoUrl = html_url repoData, deployUrl = None, isBeta = False\<rparr>
           \<and> uploaded reqs = files p
           \<and> last (logs st') =
               \<lparr>message = ''[Beta] Auto-deploy failed ('' @ interpolate (thrown_message e)
                            @ ''). Falling back to manual mode.'',
                ltype = LWarning\<rparr>
           \<and> filter (\<lambda>l. ltype l = LError) (logs st') = filter (\<lambda>l. ltype l = LError) (logs st)"
proof -
  let ?repoName = "name p @ ''-'' @ decimal rnd"
  obtain reqs where
    run: "pushFilesToRepo (githubToken (config st)) (githubUsername (config st)) ?repoName
            (files p) env 0 =
          (map (\<lambda>f. ''Pushing '' @ path f @ ''...'') (files p), reqs, Inr ())"
    and up: "uploaded reqs = files p"
    using uploads_ok_run [OF assms(4)] by blast
  show ?thesis
    using assms(1,2,3,5,6,7,8) run up
    by (simp add: handleDeploy_def begin_Some handleDeploy_resume_def provision_hosting_def
          Let_def uploaded_append)
qed

theorem hosting_failure_is_not_fatal_witness:
  "project_st (st_review cfg_beta) = Some demo_project
   \<and> githubUsername (config (st_review cfg_beta)) \<noteq> []
   \<and> put_ok (put_response env_hosting_refused 0)
   \<and> put_ok (put_response env_hosting_refused 1)
   \<and> useBetaDeploy (config (st_review cfg_beta)) = Some True
   \<and> vercelToken (config (st_review cfg_beta)) = Some ''vercel_token''
   \<and> createVercelProject ''vercel_token'' (name demo_project @ ''-'' @ decimal 7)
        (githubUsername (config (st_review cfg_beta)) @ ''/''
           @ (name demo_project @ ''-'' @ decimal 7))
        (vercel_response env_hosting_refused) = Inl (JsError ''Not authorized'')
   \<and> (case handleDeploy 7 env_hosting_refused (st_review cfg_beta) of
         (st', reqs) \<Rightarrow>
           step st' = SUCCESS
         \<and> deploymentResult st' =
             Some \<lparr>repoUrl = ''https://github.com/octo/demo'', deployUrl = None, isBeta = False\<rparr>
         \<and> uploaded reqs = [index_html, main_ts]
         \<and> last (logs st') =
             \<lparr>message = ''[Beta] Auto-deploy failed (Not authorized). Falling back to manual mode.'',
              ltype = LWarning\<rparr>)"
proof -
  have h1: "project_st (st_review cfg_beta) = Some demo_project"
    by (simp add: st_review_def)
  have h2: "githubUsername (config (st_review cfg_beta)) \<noteq> []"
    by (simp add: st_review_def cfg_beta_def)
  have h3: "createRepository (githubToken (config (st_review cfg_beta)))
        (name demo_project @ ''-'' @ decimal 7) (description demo_project)
        (repo_response env_hosting_refused)
      = Inr \<lparr>html_url = ''https://github.com/octo/demo''\<rparr>"
    by (simp add: createRepository_def env_hosting_refused_def env_ok_def)
  have h4: "\<forall>j<length (files demo_project). put_ok (put_response env_hosting_refused j)"
    by (simp add: env_hosting_refused_def env_ok_def put_ok_def)
  have h5: "useBetaDeploy (config (st_review cfg_beta)) = Some True"
    by (simp add: st_review_def cfg_beta_def)
  have h6: "vercelToken (config (st_review cfg_beta)) = Some ''vercel_token''"
    by (simp add: st_review_def cfg_beta_def)
  have h7: "''vercel_token'' \<noteq> []" by simp
  have h8: "createVercelProject ''vercel_token'' (name demo_project @ ''-'' @ decimal 7)
        (githubUsername (config (st_review cfg_beta)) @ ''/''
           @ (name demo_project @ ''-'' @ decimal 7))
        (vercel_response env_hosting_refused) = Inl (JsError ''Not authorized'')"
    by (simp add: createVercelProject_def env_hosting_refused_def env_ok_def)
  have fs: "files demo_project = [index_html, main_ts]" by (simp add: demo_project_def)
  have oks: "put_ok (put_response env_hosting_refused 0)"
    "put_ok (put_response env_hosting_refused 1)"
    by (simp_all add: env_hosting_refused_def env_ok_def put_ok_def)
  from hosting_failure_is_not_fatal [OF h1 h2 h3 h4 h5 h6 h7 h8] h1 h2 oks h5 h6 h8 fs
  show ?thesis
    by (simp add: interpolate_def thrown_message_def split: prod.splits)
qed

text \<open>
  C5. When the hosting provider answers the call with the code
  \<open>PROJECT_ALREADY_EXISTS\<close>, the run ends in \<open>SUCCESS\<close> with \<open>isBeta = True\<close> and the
  hosting url built from the user name and the name of the project on the host.
\<close>

theorem already_exists_is_success:
  assumes "project_st st = Some p" and "githubUsername (config st) \<noteq> []"
    and "createRepository (githubToken (config st)) (name p @ ''-'' @ decimal rnd)
           (description p) (repo_response env) = Inr repoData"
    and "\<forall>j<length (files p). put_ok (put_response env j)"
    and "useBetaDeploy (config st) = Some True"
    and "vercelToken (config st) = Some vt" and "vt \<noteq> []"
    and "vercel_response env = NotOk (Json verr)"
    and "code verr = Some ''PROJECT_ALREADY_EXISTS''"
  shows "case handleDeploy rnd env st of
           (st', reqs) \<Rightarrow>
             step st' = SUCCESS
           \<and> deploymentResult st' =
               Some \<lparr>repoUrl = html_url repoData,
                     deployUrl = Some (''https://vercel.com/'' @ githubUsername (config st)
                                         @ ''/'' @ (name p @ ''-'' @ decimal rnd)),
                     isBeta = True\<rparr>
           \<and> hosting_requests reqs =
               [CreateVercel vt (name p @ ''-'' @ decimal rnd)
                  (githubUsername (config st) @ ''/'' @ (name p @ ''-'' @ decimal rnd))]
           \<and> last (logs st') =
               \<lparr>message = ''[Beta] Project created! Build triggered on Vercel.'',
                ltype = LSuccess\<rparr>
           \<and> filter (\<lambda>l. ltype l = LError) (logs st') = filter (\<lambda>l. ltype l = LError) (logs st)"
proof -
  let ?repoName = "name p @ ''-'' @ decimal rnd"
  obtain reqs where
    run: "pushFilesToRepo (githubToken (config st)) (githubUsername (config st)) ?repoName
            (files p) env 0 =
          (map (\<lambda>f. ''Pushing '' @ path f @ ''...'') (files p), reqs, Inr ())"
    and up: "uploaded reqs = files p" and nh: "hosting_requests reqs = []"
    using uploads_ok_run [OF assms(4)] by blast
  show ?thesis
    using assms(1,2,3,5,6,7,8,9) run up nh
    by (simp add: handleDeploy_def begin_Some handleDeploy_resume_def provision_hosting_def
          createVercelProject_def Let_def uploaded_append hosting_requests_append)
qed

theorem already_exists_is_success_witness:
  "project_st (st_review cfg_beta) = Some demo_project
   \<and> githubUsername (config (st_review cfg_beta)) \<noteq> []
   \<and> put_ok (put_response env_hosting_exists 0)
   \<and> put_ok (put_response env_hosting_exists 1)
   \<and> useBetaDeploy (config (st_review cfg_beta)) = Some True
   \<and> vercelToken (config (st_review cfg_beta)) = Some ''vercel_token''
   \<and> vercel_response env_hosting_exists =
        NotOk (Json \<lparr>code = Some ''PROJECT_ALREADY_EXISTS'',
                     v_message = Some ''Project already exists''\<rparr>)
   \<and> (case handleDeploy 7 env_hosting_exists (st_review cfg_beta) of
         (st', reqs) \<Rightarrow>
           step st' = SUCCESS
         \<and> deploymentResult st' =
             Some \<lparr>repoUrl = ''https://github.com/octo/demo'',
                   deployUrl = Some (''https://vercel.com/octo/demo-'' @ decimal 7),
                   isBeta = True\<rparr>)"
proof -
  have h1: "project_st (st_review cfg_beta) = Some demo_project"
    by (simp add: st_review_def)
  have h2: "githubUsername (config (st_review cfg_beta)) \<noteq> []"
    by (simp add: st_review_def cfg_beta_def)
  have h3: "createRepository (githubToken (config (st_review cfg_beta)))
        (name demo_project @ ''-'' @ decimal 7) (description demo_project)
        (repo_response env_hosting_exists)
      = Inr \<lparr>html_url = ''https://github.com/octo/demo''\<rparr>"
    by (simp add: createRepository_def env_hosting_exists_def env_ok_def)
  have h4: "\<forall>j<length (files demo_project). put_ok (put_response env_hosting_exists j)"
    by (simp add: env_hosting_exists_def env_ok_def put_ok_def)
  have h5: "useBetaDeploy (config (st_review cfg_beta)) = Some True"
    by (simp add: st_review_def cfg_beta_def)
  have h6: "vercelToken (config (st_review cfg_beta)) = Some ''vercel_token''"
    by (simp add: st_review_def cfg_beta_def)
  have h7: "''vercel_token'' \<noteq> []" by simp
  have h8: "vercel_response env_hosting_exists =
        NotOk (Json \<lparr>code = Some ''PROJECT_ALREADY_EXISTS'',
                     v_message = Some ''Project already exists''\<rparr>)"
    by (simp add: env_hosting_exists_def)
  have h9: "code \<lparr>code = Some ''PROJECT_ALREADY_EXISTS'',
                  v_message = Some ''Project already exists''\<rparr>
            = Some ''PROJECT_ALREADY_EXISTS''"
    by simp
  have who: "githubUsername (config (st_review cfg_beta)) = ''octo''"
    "name demo_project = ''demo''"
    by (simp_all add: st_review_def cfg_beta_def demo_project_def)
  have oks: "put_ok (put_response env_hosting_exists 0)"
    "put_ok (put_response env_hosting_exists 1)"
    by (simp_all add: env_hosting_exists_def env_ok_def put_ok_def)
  from already_exists_is_success [OF h1 h2 h3 h4 h5 h6 h7 h8 h9] h1 h2 oks h5 h6 h8 who
  show ?thesis
    by (simp split: prod.splits)
qed

lemma provision_uploaded:
  "provision_hosting run env st = (st5, vreqs, vUrl, b) \<Longrightarrow> uploaded vreqs = []"
  by (auto simp: provision_hosting_def Let_def split: option.splits if_splits sum.splits)


lemma push_prefix:
  assumes "k \<le> length fs" and "\<forall>j<k. put_ok (put_response env j)"
    and "k < length fs \<longrightarrow> \<not> put_ok (put_response env k)"
  obtains reqs where
    "pushFilesToRepo token username repoName fs env 0 =
       (map (\<lambda>f. ''Pushing '' @ path f @ ''...'') (take (Suc k) fs), reqs,
        if k < length fs then Inl (upload_error (fs ! k) (put_response env k)) else Inr ())"
    and "uploaded reqs = take (Suc k) fs" and "hosting_requests reqs = []"
proof -
  obtain msgs reqs r where run: "pushFilesToRepo token username repoName fs env 0 = (msgs, reqs, r)"
    by (cases "pushFilesToRepo token username repoName fs env 0") auto
  have nh: "hosting_requests reqs = []" by (rule push_no_hosting [OF run])
  show ?thesis
  proof (cases "k < length fs")
    case True
    from assms(2) have a: "\<forall>j<k. put_ok (put_response env (0 + j))" by simp
    from assms(3) True have b: "\<not> put_ok (put_response env (0 + k))" by simp
    from push_fails_at [OF True a b, of token username repoName] run True
    have "msgs = map (\<lambda>f. ''Pushing '' @ path f @ ''...'') (take (Suc k) fs)"
      "uploaded reqs = take (Suc k) fs"
      "r = Inl (upload_error (fs ! k) (put_response env k))"
      by (simp_all add: upload_error_def)
    with run nh True that show ?thesis by simp
  next
    case False
    with assms(1) have k: "k = length fs" by simp
    with assms(2) have "\<forall>j<length fs. put_ok (put_response env (0 + j))" by simp
    from push_all_ok [OF this, of token username repoName] run
    have "msgs = map (\<lambda>f. ''Pushing '' @ path f @ ''...'') fs" "uploaded reqs = fs" "r = Inr ()"
      by simp_all
    with run nh k that show ?thesis by simp
  qed
qed

text \<open>
  C2, as amended. The files are uploaded in their declared order, one after the other, up
  to and including the first one whose upload does not succeed (the file at position \<open>k\<close>,
  counting from 0): each of them is uploaded once and none after it. The run then goes
  back to \<open>REVIEW\<close> without a result and without a hosting request, and its last log line
  is the error: \<open>Failed to upload <path>\<close> when the host answered without \<open>ok\<close>, the
  error of the request itself when the request was rejected.
\<close>

theorem uploads_sequential_until_first_failure:
  assumes "project_st st = Some p" and "githubUsername (config st) \<noteq> []"
    and "createRepository (githubToken (config st)) (name p @ ''-'' @ decimal rnd)
           (description p) (repo_response env) = Inr repoData"
    and "k \<le> length (files p)" and "\<forall>j<k. put_ok (put_response env j)"
    and "k < length (files p) \<longrightarrow> \<not> put_ok (put_response env k)"
  shows "case handleDeploy rnd env st of
           (st', reqs) \<Rightarrow>
             uploaded reqs = take (Suc k) (files p)
           \<and> (k < length (files p) \<longrightarrow>
                 step st' = REVIEW
               \<and> deploymentResult st' = deploymentResult st
               \<and> hosting_requests reqs = []
               \<and> last (logs st') =
                   \<lparr>message =
                      (case put_response env k of
                         Rejected e \<Rightarrow>
                           (case e of
                              JsError m \<Rightarrow> m
                            | NonError \<Rightarrow> ''An unexpected error occurred in my systems.'')
                       | _ \<Rightarrow> ''Failed to upload '' @ path (files p ! k)),
                    ltype = LError\<rparr>)"
proof -
  let ?repoName = "name p @ ''-'' @ decimal rnd"
  obtain reqs where
    run: "pushFilesToRepo (githubToken (config st)) (githubUsername (config st)) ?repoName
            (files p) env 0 =
          (map (\<lambda>f. ''Pushing '' @ path f @ ''...'') (take (Suc k) (files p)), reqs,
           if k < length (files p) then Inl (upload_error (files p ! k) (put_response env k))
           else Inr ())"
    and up: "uploaded reqs = take (Suc k) (files p)" and nh: "hosting_requests reqs = []"
    using push_prefix [OF assms(4,5,6)] by blast
  show ?thesis
  proof (cases "k < length (files p)")
    case True
    with assms(1,2,3) run up nh show ?thesis
      by (simp add: handleDeploy_def begin_Some resume_push_fail upload_error_def o_def
            split: fetched.splits thrown.splits)
  next
    case False
    obtain st5 vreqs vUrl b where
      prov: "provision_hosting
          \<lparr>run_project = p, run_config = config st, run_repoName = ?repoName\<rparr> env
          (addLog ''Source code uploaded.'' LSuccess
            (foldl (\<lambda>s m. addLog m LInfo s)
              (addLog ''2. Uploading source code...'' LInfo
                (addLog ''GitHub Repository created successfully.'' LSuccess
                  (addLog (''1. Creating repository '' @ [CHR 0x27] @ ?repoName
                             @ [CHR 0x27] @ '' on GitHub...'') LInfo
                    (addLog ''Initiating deployment sequence...'' LWarning
                       (st\<lparr>step := DEPLOYING\<rparr>)))))
              (map (\<lambda>f. ''Pushing '' @ path f @ ''...'') (take (Suc k) (files p)))))
         = (st5, vreqs, vUrl, b)"
      using prod_cases4 by blast
    from provision_uploaded [OF prov] have "uploaded vreqs = []" .
    with False assms(1,2,3) run up prov show ?thesis
      by (simp add: handleDeploy_def begin_Some resume_push_ok uploaded_append)
  qed
qed

theorem uploads_sequential_until_first_failure_witness:
  "project_st (st_review cfg_beta) = Some demo_project
   \<and> githubUsername (config (st_review cfg_beta)) \<noteq> []
   \<and> files demo_project = [index_html, main_ts]
   \<and> put_ok (put_response env_second_upload_refused 0)
   \<and> \<not> put_ok (put_response env_second_upload_refused 1)
   \<and> (case handleDeploy 7 env_second_upload_refused (st_review cfg_beta) of
         (st', reqs) \<Rightarrow>
           uploaded reqs = [index_html, main_ts]
         \<and> step st' = REVIEW \<and> deploymentResult st' = None \<and> hosting_requests reqs = []
         \<and> last (logs st') = \<lparr>message = ''Failed to upload src/main.ts'', ltype = LError\<rparr>)"
proof -
  have h1: "project_st (st_review cfg_beta) = Some demo_project"
    by (simp add: st_review_def)
  have h2: "githubUsername (config (st_review cfg_beta)) \<noteq> []"
    by (simp add: st_review_def cfg_beta_def)
  have h3: "createRepository (githubToken (config (st_review cfg_beta)))
        (name demo_project @ ''-'' @ decimal 7) (description demo_project)
        (repo_response env_second_upload_refused)
      = Inr \<lparr>html_url = ''https://github.com/octo/demo''\<rparr>"
    by (simp add: createRepository_def env_second_upload_refused_def env_ok_def)
  have h4: "1 \<le> length (files demo_project)" by (simp add: demo_project_def)
  have h5: "\<forall>j<1. put_ok (put_response env_second_upload_refused j)"
    by (simp add: env_second_upload_refused_def env_ok_def put_ok_def)
  have h6: "1 < length (files demo_project) \<longrightarrow>
            \<not> put_ok (put_response env_second_upload_refused 1)"
    by (simp add: env_second_upload_refused_def env_ok_def put_ok_def)
  have fs: "files demo_project = [index_html, main_ts]" by (simp add: demo_project_def)
  have resp: "put_response env_second_upload_refused 1 = NotOk (Json ())"
    by (simp add: env_second_upload_refused_def)
  have none: "deploymentResult (st_review cfg_beta) = None"
    by (simp add: st_review_def app0_def)
  have p1: "path main_ts = ''src/main.ts''" by (simp add: main_ts_def)
  note inst = uploads_sequential_until_first_failure [OF h1 h2 h3 h4 h5 h6]
  obtain st' reqs where run: "handleDeploy 7 env_second_upload_refused (st_review cfg_beta) = (st', reqs)"
    by (cases "handleDeploy 7 env_second_upload_refused (st_review cfg_beta)") auto
  from inst run fs resp none p1 have
    a: "uploaded reqs = [index_html, main_ts]" and b: "step st' = REVIEW"
    and c: "deploymentResult st' = None" and d: "hosting_requests reqs = []"
    and e: "last (logs st') = \<lparr>message = ''Failed to upload src/main.ts'', ltype = LError\<rparr>"
    by simp_all
  have oks: "put_ok (put_response env_second_upload_refused 0)"
    "\<not> put_ok (put_response env_second_upload_refused 1)"
    by (simp_all add: env_second_upload_refused_def env_ok_def put_ok_def)
  from a b c d e run h1 h2 fs oks show ?thesis by simp
qed

text \<open>
  C2, as stated, fails when the request of an upload is rejected: the error that ends the
  run is the one of the request, which does not name the file.
\<close>

theorem upload_error_names_path_counterexample:
  "\<not> put_ok (put_response env_upload_rejected 0)
   \<and> snd (snd (pushFilesToRepo ''ghp_token'' ''octo'' ''demo-7'' [index_html, main_ts]
                  env_upload_rejected 0))
       = Inl (JsError ''Failed to fetch'')
   \<and> \<not> contains (path index_html) ''Failed to fetch''"
  by (simp add: env_upload_rejected_def env_ok_def put_ok_def index_html_def Let_def)


section \<open>Properties of the history operations\<close>

lemma saveHistory_sel [simp]:
  "savedProjects (saveHistory cfg h s) = h"
  "stored_history (saveHistory cfg h s) = Some h"
  "logs (saveHistory cfg h s) = logs s"
  "step (saveHistory cfg h s) = step s"
  "project_st (saveHistory cfg h s) = project_st s"
  "prompt_st (saveHistory cfg h s) = prompt_st s"
  "config (saveHistory cfg h s) = config s"
  "deploymentResult (saveHistory cfg h s) = deploymentResult s"
  by (simp_all add: saveHistory_def)

text \<open>
  C6. With a project on screen, \<open>saveCurrentProject\<close> leaves the history as it is and
  logs the warning \<open>... is already saved.\<close> when a record with the same project name and
  the same prompt exists, and puts the new record in front of the history otherwise. In
  both cases a second call leaves the history of the first call unchanged and ends with
  that warning.
\<close>

theorem save_skips_exact_duplicate:
  assumes "project_st st = Some p"
  shows "((\<exists>s\<in>set (savedProjects st). name (project s) = name p \<and> prompt s = prompt_st st) \<longrightarrow>
            savedProjects (saveCurrentProject rnd now st) = savedProjects st
          \<and> logs (saveCurrentProject rnd now st) =
              logs st @ [\<lparr>message = ''Project '' @ [CHR 0x22] @ name p @ [CHR 0x22]
                                      @ '' is already saved.'',
                          ltype = LWarning\<rparr>])
       \<and> (\<not> (\<exists>s\<in>set (savedProjects st). name (project s) = name p \<and> prompt s = prompt_st st) \<longrightarrow>
            savedProjects (saveCurrentProject rnd now st) =
              \<lparr>id_sp = drop 7 rnd, timestamp = now, prompt = prompt_st st, project = p\<rparr>
                # savedProjects st)
       \<and> savedProjects (saveCurrentProject rnd' now' (saveCurrentProject rnd now st)) =
            savedProjects (saveCurrentProject rnd now st)
       \<and> last (logs (saveCurrentProject rnd' now' (saveCurrentProject rnd now st))) =
            \<lparr>message = ''Project '' @ [CHR 0x22] @ name p @ [CHR 0x22] @ '' is already saved.'',
             ltype = LWarning\<rparr>"
  using assms
  by (auto simp: saveCurrentProject_def Let_def list_ex_iff)

theorem save_skips_exact_duplicate_witness:
  "project_st (st_review cfg_manual) = Some demo_project
   \<and> savedProjects (st_review cfg_manual) = []
   \<and> savedProjects (saveCurrentProject ''0.4fzyo82mvyr'' 1000 (st_review cfg_manual)) =
        [\<lparr>id_sp = ''82mvyr'', timestamp = 1000, prompt = ''a page'', project = demo_project\<rparr>]
   \<and> savedProjects (saveCurrentProject ''0.9kd02jx7be'' 2000
         (saveCurrentProject ''0.4fzyo82mvyr'' 1000 (st_review cfg_manual))) =
        [\<lparr>id_sp = ''82mvyr'', timestamp = 1000, prompt = ''a page'', project = demo_project\<rparr>]
   \<and> ltype (last (logs (saveCurrentProject ''0.9kd02jx7be'' 2000
         (saveCurrentProject ''0.4fzyo82mvyr'' 1000 (st_review cfg_manual))))) = LWarning"
proof -
  have h: "project_st (st_review cfg_manual) = Some demo_project"
    by (simp add: st_review_def)
  have e: "savedProjects (st_review cfg_manual) = []"
    by (simp add: st_review_def app0_def)
  have q: "prompt_st (st_review cfg_manual) = ''a page''"
    by (simp add: st_review_def)
  from save_skips_exact_duplicate
         [OF h, of "''0.4fzyo82mvyr''" 1000 "''0.9kd02jx7be''" 2000] h e q
  show ?thesis by simp
qed

text \<open>
  C10, as amended. A generation that succeeds while nothing else changes the history puts
  a record in front of the history, with the id cut from the text of this call's random
  number, the clock reading of this call, the prompt and the generated project, and
  persists that list; no record is compared with it. A second generation from the same
  prompt, run after the first has completed, puts a second record in front of the
  first. Whether the ids differ is left to the random numbers.
\<close>

theorem generation_prepends_without_duplicate_check:
  assumes "trim (prompt_st st) \<noteq> []"
  shows "savedProjects (handleGenerate (Inr g) rnd now st) =
           \<lparr>id_sp = drop 7 rnd, timestamp = now, prompt = prompt_st st, project = g\<rparr>
             # savedProjects st
       \<and> stored_history (handleGenerate (Inr g) rnd now st) =
           Some (\<lparr>id_sp = drop 7 rnd, timestamp = now, prompt = prompt_st st, project = g\<rparr>
                   # savedProjects st)
       \<and> step (handleGenerate (Inr g) rnd now st) = REVIEW
       \<and> savedProjects (handleGenerate (Inr g') rnd' now'
             ((handleGenerate (Inr g) rnd now st)\<lparr>step := PROMPT\<rparr>)) =
           \<lparr>id_sp = drop 7 rnd', timestamp = now', prompt = prompt_st st, project = g'\<rparr>
             # \<lparr>id_sp = drop 7 rnd, timestamp = now, prompt = prompt_st st, project = g\<rparr>
             # savedProjects st
       \<and> (savedProjects cur = savedProjects st \<longrightarrow>
             savedProjects (handleGenerate_resume st (Inr g) rnd now cur) =
               \<lparr>id_sp = drop 7 rnd, timestamp = now, prompt = prompt_st st, project = g\<rparr>
                 # savedProjects cur
           \<and> stored_history (handleGenerate_resume st (Inr g) rnd now cur) =
               Some (\<lparr>id_sp = drop 7 rnd, timestamp = now, prompt = prompt_st st, project = g\<rparr>
                       # savedProjects cur))"
  using assms
  by (simp add: handleGenerate_def handleGenerate_begin_def handleGenerate_resume_def Let_def)

theorem generation_prepends_without_duplicate_check_witness:
  "trim (prompt_st st_prompt) \<noteq> []
   \<and> length (savedProjects st_generated_twice) = 2
   \<and> map (\<lambda>r. (name (project r), prompt r)) (savedProjects st_generated_twice) =
        [(''demo'', ''a page''), (''demo'', ''a page'')]
   \<and> map timestamp (savedProjects st_generated_twice) = [2000, 1000]
   \<and> savedProjects st_prompt_waiting = savedProjects st_prompt
   \<and> savedProjects (handleGenerate_resume st_prompt (Inr demo_project) ''0.i'' 1000
         st_prompt_waiting) =
        [\<lparr>id_sp = [], timestamp = 1000, prompt = ''a page'', project = demo_project\<rparr>]"
proof -
  have h: "trim (prompt_st st_prompt) \<noteq> []"
    by (simp add: st_prompt_def trim_def is_space_def)
  have e: "savedProjects st_prompt = []" "prompt_st st_prompt = ''a page''"
    by (simp_all add: st_prompt_def app0_def)
  have w: "savedProjects st_prompt_waiting = savedProjects st_prompt"
    by (simp add: st_prompt_waiting_def)
  from generation_prepends_without_duplicate_check
         [OF h, of demo_project "''0.i''" 1000 demo_project "''0.9''" 2000 st_prompt_waiting]
       h e w
  show ?thesis
    by (simp add: st_generated_twice_def st_generated_once_def demo_project_def)
qed

text \<open>
  C10, as stated, fails on the freshness of the id: two random numbers whose texts are
  shorter than eight characters both give the empty id.
\<close>

theorem generated_id_not_fresh_counterexample:
  "map id_sp (savedProjects st_generated_once) = [[]]
   \<and> map id_sp (savedProjects st_generated_twice) = [[], []]
   \<and> id_sp (hd (savedProjects st_generated_twice)) \<in> id_sp ` set (savedProjects st_generated_once)"
  by (simp add: st_generated_twice_def st_generated_once_def st_prompt_def app0_def
        handleGenerate_def handleGenerate_begin_def handleGenerate_resume_def Let_def
        trim_def is_space_def)



section \<open>Properties of the event machine\<close>

lemmas ui_defs = main_pane_def login_form_def prompt_panel_def generate_enabled_def
  review_panel_def deploy_enabled_def success_panel_def

text \<open>
  While the phase is \<open>GENERATING\<close> a click on the generate button changes nothing, and
  while it is \<open>DEPLOYING\<close> a click on the deploy button changes nothing.
\<close>

lemma repeated_trigger_is_rejected:
  "(step (app m) = GENERATING \<longrightarrow> dispatch ClickGenerate m = m)
   \<and> (step (app m) = DEPLOYING \<longrightarrow> dispatch (ClickDeploy rnd) m = m)"
  by (simp add: ui_defs)

lemma first_deploy_state:
  "step (app (run_events session_until_first_deploy machine0)) = DEPLOYING
   \<and> map run_repoName (deployments (run_events session_until_first_deploy machine0)) =
       [''demo-'' @ decimal 7]
   \<and> generations (run_events session_until_first_deploy machine0) = []
   \<and> map id_sp (savedProjects (app (run_events session_until_first_deploy machine0))) = [''82mvyr'']"
  by (simp add: run_events_def session_until_first_deploy_def machine0_def app0_def ui_defs
        handleLogin_begin_def handleLogin_resume_def verifyGithubToken_def
        syncHistory_begin_def syncHistory_resume_def
        handleGenerate_begin_def handleGenerate_resume_def handleDeploy_begin_def
        saveHistory_def addLog_def drop_nth_def trim_def is_space_def Let_def demo_project_def)

text \<open>
  C8. The claim fails on the code: in the session \<open>session_second_deploy\<close> two calls of
  \<open>handleDeploy\<close> are suspended at the same time. Loading a history entry while the first
  deployment is suspended sets the phase to \<open>REVIEW\<close>, where the deploy button is enabled.
\<close>

theorem two_deployments_in_flight:
  "step (app (run_events session_second_deploy machine0)) = DEPLOYING
   \<and> map run_repoName (deployments (run_events session_second_deploy machine0)) =
       [''demo-'' @ decimal 7, ''demo-'' @ decimal 8]
   \<and> length (deployments (run_events session_second_deploy machine0)) = 2"
  by (simp add: run_events_def session_second_deploy_def session_until_first_deploy_def
        machine0_def app0_def ui_defs
        handleLogin_begin_def handleLogin_resume_def verifyGithubToken_def
        syncHistory_begin_def syncHistory_resume_def
        handleGenerate_begin_def handleGenerate_resume_def handleDeploy_begin_def
        saveHistory_def addLog_def loadProject_def drop_nth_def trim_def is_space_def Let_def
        demo_project_def)

end
